theory Spec2Isabelle
  imports Complex_Main
begin

section \<open>The tracing subsystem of \<^verbatim>\<open>pytorch_pfn_extras/profiler/_tracing.py\<close>\<close>

subsection \<open>Exceptions\<close>

text \<open>
  The exceptions the module raises itself (\<^verbatim>\<open>NotImplementedError\<close> in the abstract
  class, \<^verbatim>\<open>TypeError\<close> in \<^verbatim>\<open>get_tracer\<close>), the ones its dictionary and JSON reads
  raise implicitly, and \<open>Raised\<close> for whatever a traced code block raises.
  \<open>IllTyped\<close> is not a Python exception: Python stores any object in a field, the
  typed record below cannot, and the model of \<^verbatim>\<open>load_state_dict\<close> stops with it when
  a key holds a value of another type than \<^verbatim>\<open>state_dict\<close> writes there.
\<close>

datatype exn =
    NotImplementedError string
  | TypeError string
  | KeyError string
  | JSONDecodeError
  | IllTyped string
  | Raised string

subsection \<open>Events and the recorder's fields\<close>

text \<open>
  One entry of \<^verbatim>\<open>_event_list\<close>: the dictionary with the seven fixed keys
  \<^verbatim>\<open>name, cat, ph, ts, dur, pid, tid\<close> that \<^verbatim>\<open>add_event\<close> builds. The two times are
  Python floats obtained by true division of an integer nanosecond count by 1000; they
  are kept here as the exact quotient.
\<close>

record event =
  ev_name :: string
  ev_cat :: string
  ev_ph :: string
  ev_ts :: real
  ev_dur :: real
  ev_pid :: int
  ev_tid :: int

text \<open>
  \<^verbatim>\<open>_max_event_count\<close> holds either the integer given to the constructor or
  \<^verbatim>\<open>float("inf")\<close>.
\<close>

datatype max_count = Inf | Fin int

text \<open>The comparison \<^verbatim>\<open>self._event_count < self._max_event_count\<close>.\<close>

fun count_lt :: "int \<Rightarrow> max_count \<Rightarrow> bool" where
  "count_lt c Inf = True"
| "count_lt c (Fin k) = (c < k)"

text \<open>The attributes of a \<^verbatim>\<open>ChromeTracer\<close> instance, \<^verbatim>\<open>self._x\<close> written \<open>self_x\<close>.\<close>

record chrome_tracer =
  self_enable :: bool
  self_event_list :: "event list"
  self_max_event_count :: max_count
  self_event_count :: int
  self_is_cuda_available :: bool
  self_pid :: int

text \<open>
  What the constructor reads from its surroundings: \<^verbatim>\<open>torch.cuda.is_available()\<close> and
  \<^verbatim>\<open>os.getpid()\<close>.
\<close>

record env =
  cuda_is_available :: bool
  getpid :: int

text \<open>
  \<^verbatim>\<open>max_event_count or float("inf")\<close>: Python's \<^verbatim>\<open>or\<close> returns its right operand when
  the left one is falsy, which \<^verbatim>\<open>None\<close> is and the integer \<^verbatim>\<open>0\<close> is too.
\<close>

fun or_inf :: "int option \<Rightarrow> max_count" where
  "or_inf None = Inf"
| "or_inf (Some k) = (if k = 0 then Inf else Fin k)"

definition ChromeTracer_init :: "env \<Rightarrow> int option \<Rightarrow> bool \<Rightarrow> chrome_tracer" where
  "ChromeTracer_init e max_event_count enable =
     \<lparr> self_enable = enable,
       self_event_list = [],
       self_max_event_count = or_inf max_event_count,
       self_event_count = 0,
       self_is_cuda_available = cuda_is_available e,
       self_pid = getpid e \<rparr>"

subsection \<open>\<^verbatim>\<open>ChromeTracer.add_event\<close>\<close>

text \<open>
  The state a traced span works on: the tracer and the number of
  \<^verbatim>\<open>torch.cuda.synchronize()\<close> calls that have completed. A traced code block is a
  function on that state which returns the exception it raised, if any.

  \<^verbatim>\<open>add_event\<close> is a generator-based context manager. The clock is read on entry
  (\<open>begin_ns\<close>); the block runs at the \<^verbatim>\<open>yield\<close>; the \<^verbatim>\<open>finally\<close> suite runs
  whether or not the block raised, reads the clock again (\<open>end_ns\<close>) and the thread id
  (\<open>tid\<close>), and the exception of the block, if any, leaves the \<^verbatim>\<open>with\<close> statement as
  it came. The two clock readings and the thread id are inputs of the model.
\<close>

record world =
  tracer :: chrome_tracer
  cuda_syncs :: nat

type_synonym block = "world \<Rightarrow> exn option \<times> world"

definition ChromeTracer_add_event ::
    "string \<Rightarrow> int \<Rightarrow> int \<Rightarrow> int \<Rightarrow> block \<Rightarrow> world \<Rightarrow> exn option \<times> world" where
  "ChromeTracer_add_event name begin_ns end_ns tid body w =
     (case body w of (raised, w1) \<Rightarrow>
        let self = tracer w1 in
        if self_enable self \<and> count_lt (self_event_count self) (self_max_event_count self)
        then
          let syncs = (if self_is_cuda_available self then Suc (cuda_syncs w1)
                       else cuda_syncs w1);
              self1 = self\<lparr>self_event_count := self_event_count self + 1\<rparr>;
              duration_ns = end_ns - begin_ns;
              self2 = self1\<lparr>self_event_list := self_event_list self1 @
                        [\<lparr> ev_name = name,
                           ev_cat = [],
                           ev_ph = ''X'',
                           ev_ts = real_of_int begin_ns / 1000,
                           ev_dur = real_of_int duration_ns / 1000,
                           ev_pid = self_pid self1,
                           ev_tid = tid \<rparr>]\<rparr>
          in (raised, \<lparr>tracer = self2, cuda_syncs = syncs\<rparr>)
        else (raised, w1))"

text \<open>
  A span whose block leaves the tracer alone, described by what its run reads from
  outside: the label, the two clock readings, the thread id and how the block ended.
  \<open>run_spans\<close> is a caller that opens such spans one after the other and goes on after
  a block that raised.
\<close>

record span =
  sp_name :: string
  sp_begin_ns :: int
  sp_end_ns :: int
  sp_tid :: int
  sp_raised :: "exn option"

definition span_block :: "span \<Rightarrow> block" where
  "span_block sp w = (sp_raised sp, w)"

definition do_span :: "span \<Rightarrow> world \<Rightarrow> exn option \<times> world" where
  "do_span sp w =
     ChromeTracer_add_event (sp_name sp) (sp_begin_ns sp) (sp_end_ns sp) (sp_tid sp)
       (span_block sp) w"

fun run_spans :: "world \<Rightarrow> span list \<Rightarrow> world" where
  "run_spans w [] = w"
| "run_spans w (sp # sps) = run_spans (snd (do_span sp w)) sps"

subsection \<open>\<^verbatim>\<open>flush\<close>, \<^verbatim>\<open>enable\<close>, \<^verbatim>\<open>clear\<close>\<close>

text \<open>
  The writer is a callable of the surrounding library; \<^verbatim>\<open>flush\<close> calls it with the
  file name, the empty string for the ignored output directory, the event list and a
  fresh \<^verbatim>\<open>ChromeTracingSaveFunc\<close>. Here a writer is a function on its own state
  \<open>'w\<close>. \<open>recording_writer\<close> is the writer that only notes each call it receives.
\<close>

datatype savefun = ChromeTracingSaveFunc

type_synonym 'w writer = "string \<Rightarrow> string \<Rightarrow> event list \<Rightarrow> savefun \<Rightarrow> 'w \<Rightarrow> 'w"

definition ChromeTracer_flush :: "chrome_tracer \<Rightarrow> string \<Rightarrow> 'w writer \<Rightarrow> 'w \<Rightarrow> 'w" where
  "ChromeTracer_flush self filename writer ws =
     (if \<not> self_enable self then ws
      else writer filename [] (self_event_list self) ChromeTracingSaveFunc ws)"

record writer_call =
  wc_filename :: string
  wc_out_dir :: string
  wc_target :: "event list"
  wc_savefun :: savefun

definition recording_writer :: "(writer_call list) writer" where
  "recording_writer filename out_dir target sf calls =
     calls @ [\<lparr> wc_filename = filename, wc_out_dir = out_dir,
                wc_target = target, wc_savefun = sf \<rparr>]"

definition ChromeTracer_enable :: "chrome_tracer \<Rightarrow> bool \<Rightarrow> chrome_tracer" where
  "ChromeTracer_enable self enable_flag = self\<lparr>self_enable := enable_flag\<rparr>"

definition ChromeTracer_clear :: "chrome_tracer \<Rightarrow> chrome_tracer" where
  "ChromeTracer_clear self = self\<lparr>self_event_list := [], self_event_count := 0\<rparr>"

subsection \<open>\<^verbatim>\<open>state_dict\<close> and \<^verbatim>\<open>load_state_dict\<close>\<close>





subsection \<open>The abstract class and the no-op tracer\<close>

text \<open>
  \<^verbatim>\<open>Tracer\<close> raises \<^verbatim>\<open>NotImplementedError\<close> in each of its four methods.
  \<^verbatim>\<open>DummyTracer\<close> overrides \<^verbatim>\<open>add_event\<close>, \<^verbatim>\<open>clear\<close> and \<^verbatim>\<open>flush\<close>; it has no
  attributes, and it defines no \<^verbatim>\<open>enable\<close>, so that call resolves to \<^verbatim>\<open>Tracer.enable\<close>.
  An instance of either class carries no data and is the unit value.
\<close>

definition Tracer_add_event :: "string \<Rightarrow> block \<Rightarrow> world \<Rightarrow> exn option \<times> world" where
  "Tracer_add_event name body w = (Some (NotImplementedError ''Tracers must implement add_event''), w)"

definition Tracer_clear :: "unit \<Rightarrow> exn option \<times> unit" where
  "Tracer_clear self = (Some (NotImplementedError ''Tracers must implement clear''), self)"

definition Tracer_flush :: "unit \<Rightarrow> string \<Rightarrow> 'w writer \<Rightarrow> 'w \<Rightarrow> exn option \<times> 'w" where
  "Tracer_flush self filename writer ws =
     (Some (NotImplementedError ''Tracers must implement flush''), ws)"

definition Tracer_enable :: "unit \<Rightarrow> bool \<Rightarrow> exn option \<times> unit" where
  "Tracer_enable self enable_flag =
     (Some (NotImplementedError ''Tracers must implement enable''), self)"

definition DummyTracer_add_event :: "string \<Rightarrow> block \<Rightarrow> world \<Rightarrow> exn option \<times> world" where
  "DummyTracer_add_event name body w = body w"

definition DummyTracer_clear :: "unit \<Rightarrow> exn option \<times> unit" where
  "DummyTracer_clear self = (None, self)"

definition DummyTracer_flush :: "unit \<Rightarrow> string \<Rightarrow> 'w writer \<Rightarrow> 'w \<Rightarrow> exn option \<times> 'w" where
  "DummyTracer_flush self filename writer ws = (None, ws)"

definition DummyTracer_enable :: "unit \<Rightarrow> bool \<Rightarrow> exn option \<times> unit" where
  "DummyTracer_enable self enable_flag = Tracer_enable self enable_flag"

subsection \<open>The registry: \<^verbatim>\<open>_tracer\<close>, \<^verbatim>\<open>get_tracer\<close>, \<^verbatim>\<open>clear_tracer\<close>\<close>

text \<open>
  The classes of the module and their instances. Objects live in a store, a list
  indexed by address in which construction appends; the module global \<^verbatim>\<open>_tracer\<close> is
  \<open>None\<close> or the address of the stored instance, so that two results of
  \<^verbatim>\<open>get_tracer\<close> are the same object exactly when they are the same address.
  \<open>check_cls\<close> is the second \<^verbatim>\<open>if\<close> of \<^verbatim>\<open>get_tracer\<close> and its \<^verbatim>\<open>return\<close>, at the
  address the global holds by then.
\<close>

datatype tracer_cls = Tracer | DummyTracer | ChromeTracer

datatype tracer_obj = TracerObj | DummyTracerObj | ChromeTracerObj chrome_tracer

fun class_of :: "tracer_obj \<Rightarrow> tracer_cls" where
  "class_of TracerObj = Tracer"
| "class_of DummyTracerObj = DummyTracer"
| "class_of (ChromeTracerObj t) = ChromeTracer"

record proc =
  heap :: "tracer_obj list"
  global_tracer :: "nat option"

text \<open>\<^verbatim>\<open>tracer_cls()\<close>: the constructor call with no argument.\<close>

fun construct :: "env \<Rightarrow> tracer_cls \<Rightarrow> tracer_obj" where
  "construct e Tracer = TracerObj"
| "construct e DummyTracer = DummyTracerObj"
| "construct e ChromeTracer = ChromeTracerObj (ChromeTracer_init e None True)"

definition check_cls :: "tracer_cls \<Rightarrow> nat \<Rightarrow> proc \<Rightarrow> (exn + nat) \<times> proc" where
  "check_cls tracer_cls a p =
     (if class_of (heap p ! a) \<noteq> tracer_cls
      then (Inl (TypeError ''get_tracer called with a different cls''), p)
      else (Inr a, p))"

definition get_tracer :: "env \<Rightarrow> tracer_cls \<Rightarrow> proc \<Rightarrow> (exn + nat) \<times> proc" where
  "get_tracer e tracer_cls p =
     (case global_tracer p of
        None \<Rightarrow>
          check_cls tracer_cls (length (heap p))
            \<lparr> heap = heap p @ [construct e tracer_cls],
              global_tracer = Some (length (heap p)) \<rparr>
      | Some a \<Rightarrow> check_cls tracer_cls a p)"

text \<open>The method call \<^verbatim>\<open>obj.clear()\<close>, resolved by the class of the object.\<close>

fun obj_clear :: "tracer_obj \<Rightarrow> exn option \<times> tracer_obj" where
  "obj_clear TracerObj = (fst (Tracer_clear ()), TracerObj)"
| "obj_clear DummyTracerObj = (fst (DummyTracer_clear ()), DummyTracerObj)"
| "obj_clear (ChromeTracerObj t) = (None, ChromeTracerObj (ChromeTracer_clear t))"

definition clear_tracer :: "env \<Rightarrow> proc \<Rightarrow> exn option \<times> proc" where
  "clear_tracer e p =
     (case get_tracer e ChromeTracer p of
        (Inl err, p1) \<Rightarrow> (Some err, p1)
      | (Inr a, p1) \<Rightarrow>
          (case obj_clear (heap p1 ! a) of
             (r, obj) \<Rightarrow> (r, p1\<lparr>heap := (heap p1)[a := obj]\<rparr>)))"

subsection \<open>Auxiliary notions for the properties\<close>

text \<open>
  \<open>capped K w\<close>: the tracer of \<open>w\<close> is enabled, its cap is the number \<open>K\<close>, its
  counter equals the length of its buffer, and the buffer holds at most \<open>K\<close> records.
  \<open>span_event p sp\<close> is the record that a completed span \<open>sp\<close> leaves in the buffer
  of a tracer whose process id is \<open>p\<close>.
\<close>

definition capped :: "nat \<Rightarrow> world \<Rightarrow> bool" where
  "capped K w = (self_enable (tracer w) \<and> self_max_event_count (tracer w) = Fin (int K)
     \<and> self_event_count (tracer w) = int (length (self_event_list (tracer w)))
     \<and> length (self_event_list (tracer w)) \<le> K)"

definition span_event :: "int \<Rightarrow> span \<Rightarrow> event" where
  "span_event p sp =
     \<lparr> ev_name = sp_name sp, ev_cat = [], ev_ph = ''X'',
       ev_ts = real_of_int (sp_begin_ns sp) / 1000,
       ev_dur = real_of_int (sp_end_ns sp - sp_begin_ns sp) / 1000,
       ev_pid = p, ev_tid = sp_tid sp \<rparr>"

text \<open>Concrete inputs on which the properties below are evaluated.\<close>

definition env0 :: env where
  "env0 = \<lparr> cuda_is_available = False, getpid = 4242 \<rparr>"

definition span_a :: span where
  "span_a = \<lparr> sp_name = ''a'', sp_begin_ns = 1000, sp_end_ns = 6000, sp_tid = 7, sp_raised = None \<rparr>"

definition span_b :: span where
  "span_b = \<lparr> sp_name = ''b'', sp_begin_ns = 7000, sp_end_ns = 7500, sp_tid = 7,
              sp_raised = Some (Raised ''boom'') \<rparr>"

definition new_world :: "int option \<Rightarrow> bool \<Rightarrow> world" where
  "new_world max_event_count enable =
     \<lparr> tracer = ChromeTracer_init env0 max_event_count enable, cuda_syncs = 0 \<rparr>"

definition proc0 :: proc where
  "proc0 = \<lparr> heap = [], global_tracer = None \<rparr>"

text \<open>
  A caller that asks for the tracer once per class of the list, catching the
  \<^verbatim>\<open>TypeError\<close> of a refused request, and collects what each request returned.
\<close>

fun get_tracer_calls :: "env \<Rightarrow> tracer_cls list \<Rightarrow> proc \<Rightarrow> (exn + nat) list \<times> proc" where
  "get_tracer_calls e [] p = ([], p)"
| "get_tracer_calls e (c # cs) p =
     (case get_tracer e c p of (r, p1) \<Rightarrow>
        case get_tracer_calls e cs p1 of (rs, p2) \<Rightarrow> (r # rs, p2))"

section \<open>Properties\<close>

subsection \<open>One span\<close>

lemma do_span_hit:
  "self_enable (tracer w) \<Longrightarrow> count_lt (self_event_count (tracer w)) (self_max_event_count (tracer w)) \<Longrightarrow>
   tracer (snd (do_span sp w)) =
     (tracer w)\<lparr>self_event_count := self_event_count (tracer w) + 1,
                self_event_list := self_event_list (tracer w) @
                   [\<lparr> ev_name = sp_name sp, ev_cat = [], ev_ph = ''X'',
                      ev_ts = real_of_int (sp_begin_ns sp) / 1000,
                      ev_dur = real_of_int (sp_end_ns sp - sp_begin_ns sp) / 1000,
                      ev_pid = self_pid (tracer w), ev_tid = sp_tid sp \<rparr>]\<rparr>"
  by (simp add: do_span_def ChromeTracer_add_event_def span_block_def Let_def)


lemma do_span_fst: "fst (do_span sp w) = sp_raised sp"
  by (simp add: do_span_def ChromeTracer_add_event_def span_block_def Let_def)



text \<open>
  The constructor with a positive cap and \<^verbatim>\<open>clear\<close> on a capped tracer both give a
  capped tracer, so the states \<open>capped\<close> describes are the ones a run reaches.
\<close>

lemma capped_init:
  "0 < K \<Longrightarrow> capped K \<lparr>tracer = ChromeTracer_init e (Some (int K)) True, cuda_syncs = n\<rparr>"
  by (simp add: capped_def ChromeTracer_init_def)

lemma capped_clear:
  "capped K w \<Longrightarrow> capped K (w\<lparr>tracer := ChromeTracer_clear (tracer w)\<rparr>)"
  by (simp add: capped_def ChromeTracer_clear_def)

text \<open>
  A span that records performs one \<^verbatim>\<open>torch.cuda.synchronize()\<close> when the device is
  there; a span that does not record performs none.
\<close>

lemma do_span_syncs:
  "cuda_syncs (snd (do_span sp w)) =
     (if self_enable (tracer w)
         \<and> count_lt (self_event_count (tracer w)) (self_max_event_count (tracer w))
         \<and> self_is_cuda_available (tracer w)
      then Suc (cuda_syncs w) else cuda_syncs w)"
  by (simp add: do_span_def ChromeTracer_add_event_def span_block_def Let_def)

lemma do_span_unbounded:
  assumes "self_enable (tracer w)" "self_max_event_count (tracer w) = Inf"
  shows "tracer (snd (do_span sp w)) =
     (tracer w)\<lparr>self_event_count := self_event_count (tracer w) + 1,
                self_event_list := self_event_list (tracer w) @ [span_event (self_pid (tracer w)) sp]\<rparr>"
proof -
  from assms have "count_lt (self_event_count (tracer w)) (self_max_event_count (tracer w))"
    by simp
  from do_span_hit[OF assms(1) this, of sp] show ?thesis
    by (simp add: span_event_def)
qed

lemma run_spans_unbounded:
  "self_enable (tracer w) \<Longrightarrow> self_max_event_count (tracer w) = Inf \<Longrightarrow>
   self_event_list (tracer (run_spans w sps)) =
     self_event_list (tracer w) @ map (span_event (self_pid (tracer w))) sps"
proof (induction sps arbitrary: w)
  case Nil
  then show ?case by simp
next
  case (Cons sp sps)
  let ?w1 = "snd (do_span sp w)"
  note step = do_span_unbounded[OF Cons.prems, of sp]
  have en: "self_enable (tracer ?w1)" and mx: "self_max_event_count (tracer ?w1) = Inf"
    and pd: "self_pid (tracer ?w1) = self_pid (tracer w)"
    using Cons.prems by (simp_all add: step)
  from Cons.IH[OF en mx] show ?case
    by (simp add: pd step)
qed

lemma span_event_dur: "sp_begin_ns sp \<le> sp_end_ns sp \<Longrightarrow> 0 \<le> ev_dur (span_event p sp)"
  by (simp add: span_event_def)

subsection \<open>The registry\<close>

lemma class_of_construct: "class_of (construct e c) = c"
  by (cases c) simp_all

section \<open>The claims\<close>



text \<open>
  C2. A tracer constructed with \<^verbatim>\<open>max_event_count=0\<close> is not a tracer that records
  nothing: \<^verbatim>\<open>0 or float("inf")\<close> is \<^verbatim>\<open>float("inf")\<close>, the stored cap is the unbounded
  one, and already the first span of an enabled tracer appends a record.
\<close>

theorem zero_cap_still_records_counterexample:
  "self_max_event_count (tracer (new_world (Some 0) True)) = Inf
   \<and> self_event_list (tracer (snd (do_span span_a (new_world (Some 0) True)))) \<noteq> []"
  by (simp add: new_world_def ChromeTracer_init_def do_span_def ChromeTracer_add_event_def
      span_block_def Let_def)

text \<open>
  C2, as the code has it. Constructing an enabled tracer with \<^verbatim>\<open>max_event_count=0\<close>
  stores the unbounded cap, and every completed span appends a record: after \<open>N\<close>
  spans the buffer holds \<open>N\<close> records.
\<close>

theorem zero_cap_is_unbounded:
  "self_max_event_count (ChromeTracer_init e (Some 0) True) = Inf
   \<and> length (self_event_list (tracer
        (run_spans \<lparr>tracer = ChromeTracer_init e (Some 0) True, cuda_syncs = n\<rparr> sps))) = length sps"
proof -
  let ?w = "\<lparr>tracer = ChromeTracer_init e (Some 0) True, cuda_syncs = n\<rparr>"
  have mx: "self_max_event_count (ChromeTracer_init e (Some 0) True) = Inf"
    by (simp add: ChromeTracer_init_def)
  have en: "self_enable (tracer ?w)" and mx': "self_max_event_count (tracer ?w) = Inf"
    and emp: "self_event_list (tracer ?w) = []"
    by (simp_all add: ChromeTracer_init_def)
  from run_spans_unbounded[OF en mx', of sps] emp mx show ?thesis
    by simp
qed



text \<open>
  C4. The no-op tracer defines \<^verbatim>\<open>add_event\<close>, \<^verbatim>\<open>clear\<close> and \<^verbatim>\<open>flush\<close> only, so
  \<^verbatim>\<open>DummyTracer().enable(flag)\<close> runs \<^verbatim>\<open>Tracer.enable\<close>: for either flag it raises
  \<^verbatim>\<open>NotImplementedError("Tracers must implement enable")\<close> instead of returning.
\<close>

theorem dummy_tracer_enable_raises:
  "DummyTracer_enable () enable_flag =
     (Some (NotImplementedError ''Tracers must implement enable''), ())"
  by (simp add: DummyTracer_enable_def Tracer_enable_def)

text \<open>The three methods the no-op tracer does define change nothing and raise nothing.\<close>

lemma dummy_tracer_noops:
  "DummyTracer_add_event name body w = body w"
  "DummyTracer_clear () = (None, ())"
  "DummyTracer_flush () filename writer ws = (None, ws)"
  by (simp_all add: DummyTracer_add_event_def DummyTracer_clear_def DummyTracer_flush_def)

text \<open>
  C5. Take a world whose tracer is enabled, has the unbounded cap and an empty buffer.
  After any sequence of \<open>N\<close> completed spans the buffer holds exactly \<open>N\<close> records,
  and when in each span the clock reading at exit is not before the one at entry (the
  clock is \<^verbatim>\<open>time.perf_counter_ns\<close>, which never goes backwards), every record has a
  duration of at least zero.
\<close>

theorem unbounded_records_every_span:
  assumes "self_enable (tracer w)"
    and "self_max_event_count (tracer w) = Inf"
    and "self_event_list (tracer w) = []"
  shows "length (self_event_list (tracer (run_spans w sps))) = length sps
     \<and> ((\<forall>sp \<in> set sps. sp_begin_ns sp \<le> sp_end_ns sp) \<longrightarrow>
          (\<forall>ev \<in> set (self_event_list (tracer (run_spans w sps))). 0 \<le> ev_dur ev))"
  using assms by (auto simp add: run_spans_unbounded span_event_dur)

theorem unbounded_records_every_span_witness:
  "length (self_event_list (tracer (run_spans (new_world None True) [span_a, span_b]))) = 2
   \<and> 0 \<le> ev_dur (self_event_list (tracer (run_spans (new_world None True) [span_a, span_b])) ! 0)
   \<and> 0 \<le> ev_dur (self_event_list (tracer (run_spans (new_world None True) [span_a, span_b])) ! 1)"
proof -
  let ?w = "new_world None True"
  let ?evs = "self_event_list (tracer (run_spans ?w [span_a, span_b]))"
  have h1: "self_enable (tracer ?w)"
    by (simp add: new_world_def ChromeTracer_init_def)
  have h2: "self_max_event_count (tracer ?w) = Inf"
    by (simp add: new_world_def ChromeTracer_init_def)
  have h3: "self_event_list (tracer ?w) = []"
    by (simp add: new_world_def ChromeTracer_init_def)
  have mono: "\<forall>sp \<in> set [span_a, span_b]. sp_begin_ns sp \<le> sp_end_ns sp"
    by (simp add: span_a_def span_b_def)
  from unbounded_records_every_span[OF h1 h2 h3, of "[span_a, span_b]"] mono
  have len: "length ?evs = 2" and dur: "\<forall>ev \<in> set ?evs. 0 \<le> ev_dur ev"
    by simp_all
  from len have "?evs ! 0 \<in> set ?evs" and "?evs ! 1 \<in> set ?evs"
    by (simp_all only: nth_mem zero_less_numeral one_less_numeral_iff semiring_norm)
  with dur have "0 \<le> ev_dur (?evs ! 0)" and "0 \<le> ev_dur (?evs ! 1)"
    by blast+
  with len show ?thesis by blast
qed

text \<open>
  C6. \<^verbatim>\<open>flush\<close> calls the writer exactly when the tracer is enabled. Enabled, it makes
  one call, with the file name, the empty output directory, the whole event list and
  the save function; disabled, it makes no call, whatever the buffer holds. Stated for
  the writer that records its calls and, in the last line, for any writer.
\<close>

theorem flush_calls_writer_iff_enabled:
  "(self_enable self \<longrightarrow>
      ChromeTracer_flush self filename recording_writer calls =
        calls @ [\<lparr> wc_filename = filename, wc_out_dir = [],
                    wc_target = self_event_list self, wc_savefun = ChromeTracingSaveFunc \<rparr>])
   \<and> (\<not> self_enable self \<longrightarrow> ChromeTracer_flush self filename recording_writer calls = calls)
   \<and> (length (ChromeTracer_flush self filename recording_writer calls) \<noteq> length calls
        \<longleftrightarrow> self_enable self)
   \<and> ChromeTracer_flush self filename writer ws =
        (if self_enable self
         then writer filename [] (self_event_list self) ChromeTracingSaveFunc ws else ws)"
  by (simp add: ChromeTracer_flush_def recording_writer_def)

theorem flush_calls_writer_iff_enabled_witness:
  "ChromeTracer_flush (tracer (run_spans (new_world None True) [span_a])) ''trace.json''
       recording_writer []
     = [\<lparr> wc_filename = ''trace.json'', wc_out_dir = [],
           wc_target = [span_event 4242 span_a], wc_savefun = ChromeTracingSaveFunc \<rparr>]
   \<and> ChromeTracer_flush
        (ChromeTracer_enable (tracer (run_spans (new_world None True) [span_a])) False)
        ''trace.json'' recording_writer [] = []"
proof -
  let ?t = "tracer (run_spans (new_world None True) [span_a])"
  have on: "self_enable ?t" and off: "\<not> self_enable (ChromeTracer_enable ?t False)"
    and keep: "self_event_list ?t = [span_event 4242 span_a]"
    by (simp_all add: new_world_def ChromeTracer_init_def do_span_def ChromeTracer_add_event_def
        span_block_def span_event_def env0_def Let_def ChromeTracer_enable_def)
  from flush_calls_writer_iff_enabled[of ?t "''trace.json''" "[]" recording_writer "[]"] on keep
  have a: "ChromeTracer_flush ?t ''trace.json'' recording_writer [] =
      [\<lparr> wc_filename = ''trace.json'', wc_out_dir = [],
         wc_target = [span_event 4242 span_a], wc_savefun = ChromeTracingSaveFunc \<rparr>]"
    by simp
  from flush_calls_writer_iff_enabled[of "ChromeTracer_enable ?t False" "''trace.json''" "[]"
      recording_writer "[]"] off
  have b: "ChromeTracer_flush (ChromeTracer_enable ?t False) ''trace.json'' recording_writer [] = []"
    by simp
  from a b show ?thesis by simp
qed

text \<open>
  C7. When the traced block raises \<open>err\<close>, and the tracer the block leaves behind is
  enabled and under its cap, the span still finalizes: the counter goes up by one, one
  record is appended whose duration runs from the entry reading to the exit reading of
  the clock, and the \<^verbatim>\<open>with\<close> statement raises that same \<open>err\<close>.
\<close>

theorem add_event_finalizes_when_block_raises:
  assumes "body w = (Some err, w1)"
    and "self_enable (tracer w1)"
    and "count_lt (self_event_count (tracer w1)) (self_max_event_count (tracer w1))"
  shows "fst (ChromeTracer_add_event name begin_ns end_ns tid body w) = Some err
     \<and> self_event_count (tracer (snd (ChromeTracer_add_event name begin_ns end_ns tid body w)))
         = self_event_count (tracer w1) + 1
     \<and> self_event_list (tracer (snd (ChromeTracer_add_event name begin_ns end_ns tid body w)))
         = self_event_list (tracer w1) @
             [\<lparr> ev_name = name, ev_cat = [], ev_ph = ''X'',
                ev_ts = real_of_int begin_ns / 1000,
                ev_dur = real_of_int (end_ns - begin_ns) / 1000,
                ev_pid = self_pid (tracer w1), ev_tid = tid \<rparr>]"
  using assms by (simp add: ChromeTracer_add_event_def Let_def)

theorem add_event_finalizes_when_block_raises_witness:
  "fst (do_span span_b (new_world (Some 2) True)) = Some (Raised ''boom'')
   \<and> self_event_count (tracer (snd (do_span span_b (new_world (Some 2) True)))) = 1
   \<and> map ev_dur (self_event_list (tracer (snd (do_span span_b (new_world (Some 2) True)))))
       = [1 / 2]"
proof -
  let ?w = "new_world (Some 2) True"
  have h1: "span_block span_b ?w = (Some (Raised ''boom''), ?w)"
    by (simp add: span_block_def span_b_def)
  have h2: "self_enable (tracer ?w)"
    by (simp add: new_world_def ChromeTracer_init_def)
  have h3: "count_lt (self_event_count (tracer ?w)) (self_max_event_count (tracer ?w))"
    by (simp add: new_world_def ChromeTracer_init_def)
  have z: "self_event_count (tracer ?w) = 0" "self_event_list (tracer ?w) = []"
    by (simp_all add: new_world_def ChromeTracer_init_def)
  from add_event_finalizes_when_block_raises[of "span_block span_b" ?w "Raised ''boom''" ?w
      "sp_name span_b" "sp_begin_ns span_b" "sp_end_ns span_b" "sp_tid span_b", OF h1 h2 h3]
  show ?thesis
    by (simp add: do_span_def z) (simp add: span_b_def)
qed

text \<open>
  C8. \<^verbatim>\<open>clear\<close> empties the buffer and sets the counter to zero; the enabled flag and
  the cap stay as they were, and so does every other attribute.
\<close>

theorem clear_resets_buffer_and_counter:
  "self_event_list (ChromeTracer_clear self) = []
   \<and> self_event_count (ChromeTracer_clear self) = 0
   \<and> self_enable (ChromeTracer_clear self) = self_enable self
   \<and> self_max_event_count (ChromeTracer_clear self) = self_max_event_count self
   \<and> ChromeTracer_clear self = self\<lparr>self_event_list := [], self_event_count := 0\<rparr>"
  by (simp add: ChromeTracer_clear_def)

text \<open>
  C9. On a registry that holds nothing, \<^verbatim>\<open>get_tracer(c)\<close> constructs an instance of
  \<open>c\<close> with no argument (for \<^verbatim>\<open>ChromeTracer\<close>: enabled, unbounded, empty, counter
  zero), stores it at a new address and returns that address. In every later state in
  which the registry still holds that address, a request for another class raises
  \<^verbatim>\<open>TypeError\<close>, a request for \<open>c\<close> returns the same address, and neither changes
  the registry or the store.
\<close>

theorem get_tracer_singleton:
  assumes "global_tracer p = None"
  shows "get_tracer e c p =
           (Inr (length (heap p)),
            \<lparr> heap = heap p @ [construct e c], global_tracer = Some (length (heap p)) \<rparr>)
     \<and> construct e ChromeTracer =
           ChromeTracerObj \<lparr> self_enable = True, self_event_list = [],
             self_max_event_count = Inf, self_event_count = 0,
             self_is_cuda_available = cuda_is_available e, self_pid = getpid e \<rparr>
     \<and> (\<forall>p2 e2 c2.
           global_tracer p2 = Some (length (heap p)) \<and> class_of (heap p2 ! length (heap p)) = c
           \<longrightarrow> get_tracer e2 c2 p2 =
                 (if c2 = c then Inr (length (heap p))
                  else Inl (TypeError ''get_tracer called with a different cls''), p2))"
proof -
  have "get_tracer e c p =
      (Inr (length (heap p)),
       \<lparr> heap = heap p @ [construct e c], global_tracer = Some (length (heap p)) \<rparr>)"
    using assms by (simp add: get_tracer_def check_cls_def class_of_construct)
  moreover have "construct e ChromeTracer =
      ChromeTracerObj \<lparr> self_enable = True, self_event_list = [],
        self_max_event_count = Inf, self_event_count = 0,
        self_is_cuda_available = cuda_is_available e, self_pid = getpid e \<rparr>"
    by (simp add: ChromeTracer_init_def)
  moreover have "get_tracer e2 c2 p2 =
      (if c2 = c then Inr (length (heap p))
       else Inl (TypeError ''get_tracer called with a different cls''), p2)"
    if "global_tracer p2 = Some (length (heap p)) \<and> class_of (heap p2 ! length (heap p)) = c"
    for p2 e2 c2
    using that by (auto simp add: get_tracer_def check_cls_def)
  ultimately show ?thesis by blast
qed

theorem get_tracer_singleton_witness:
  "get_tracer_calls env0 [DummyTracer, ChromeTracer, DummyTracer] proc0 =
     ([Inr 0, Inl (TypeError ''get_tracer called with a different cls''), Inr 0],
      \<lparr> heap = [DummyTracerObj], global_tracer = Some 0 \<rparr>)"
proof -
  let ?p1 = "\<lparr> heap = [DummyTracerObj], global_tracer = Some 0 \<rparr>"
  have h: "global_tracer proc0 = None"
    by (simp add: proc0_def)
  note T = get_tracer_singleton[OF h, of env0 DummyTracer]
  have first: "get_tracer env0 DummyTracer proc0 = (Inr 0, ?p1)"
    using T by (simp add: proc0_def)
  have later: "global_tracer ?p1 = Some (length (heap proc0))
      \<and> class_of (heap ?p1 ! length (heap proc0)) = DummyTracer"
    by (simp add: proc0_def)
  from T have L: "\<And>e2 c2. get_tracer e2 c2 ?p1 =
      (if c2 = DummyTracer then Inr (length (heap proc0))
       else Inl (TypeError ''get_tracer called with a different cls''), ?p1)"
    using later by blast
  have second: "get_tracer env0 ChromeTracer ?p1 =
      (Inl (TypeError ''get_tracer called with a different cls''), ?p1)"
    using L[of env0 ChromeTracer] by simp
  have third: "get_tracer env0 DummyTracer ?p1 = (Inr 0, ?p1)"
    using L[of env0 DummyTracer] by (simp add: proc0_def)
  show ?thesis
    by (simp add: first second third)
qed

text \<open>
  C10. \<^verbatim>\<open>clear_tracer()\<close> on a registry that holds nothing raises nothing: it
  constructs the default \<^verbatim>\<open>ChromeTracer\<close> (enabled, unbounded, empty buffer, counter
  zero), stores it in the registry, clears it, and leaves the registry holding it.
\<close>

theorem clear_tracer_constructs_default:
  assumes "global_tracer p = None"
  shows "clear_tracer e p =
     (None,
      \<lparr> heap = heap p @
          [ChromeTracerObj \<lparr> self_enable = True, self_event_list = [],
             self_max_event_count = Inf, self_event_count = 0,
             self_is_cuda_available = cuda_is_available e, self_pid = getpid e \<rparr>],
        global_tracer = Some (length (heap p)) \<rparr>)"
  using assms
  by (simp add: clear_tracer_def get_tracer_def check_cls_def ChromeTracer_init_def
      ChromeTracer_clear_def)

theorem clear_tracer_constructs_default_witness:
  "clear_tracer env0 proc0 =
     (None,
      \<lparr> heap = [ChromeTracerObj \<lparr> self_enable = True, self_event_list = [],
                  self_max_event_count = Inf, self_event_count = 0,
                  self_is_cuda_available = False, self_pid = 4242 \<rparr>],
        global_tracer = Some 0 \<rparr>)"
proof -
  have h: "global_tracer proc0 = None"
    by (simp add: proc0_def)
  from clear_tracer_constructs_default[OF h, of env0] show ?thesis
    by (simp add: proc0_def env0_def)
qed

end
